theory Spec2Isabelle
  imports Complex_Main
begin

section \<open>The data model: the two tables of \<^verbatim>\<open>parking_system.db\<close>\<close>

text \<open>
  \<^verbatim>\<open>CREATE TABLE ParkingSpots (spot_id INTEGER PRIMARY KEY, floor TEXT NOT NULL,
  spot_type TEXT NOT NULL, is_occupied INTEGER NOT NULL DEFAULT 0)\<close>.
  A row keeps the column types of the schema: the floor and the spot type are text, the
  occupancy flag is an integer (the program writes only 0 and 1, the schema allows any).
  The column \<^verbatim>\<open>floor\<close> is named \<open>floor_name\<close> here, \<open>floor\<close> being the
  rounding function of the library.
\<close>

record spot =
  spot_id :: int
  floor_name :: string
  spot_type :: string
  is_occupied :: int

text \<open>
  \<^verbatim>\<open>CREATE TABLE Users (user_id INTEGER PRIMARY KEY, role TEXT NOT NULL,
  is_premium INTEGER NOT NULL DEFAULT 0)\<close>.
\<close>

record user =
  user_id :: int
  role :: string
  is_premium :: int

text \<open>
  The database file is the state every handler reads and writes. A table is the list of
  its rows in storage order; an \<^verbatim>\<open>UPDATE\<close> rewrites rows in place.
\<close>

record db =
  ParkingSpots :: "spot list"
  Users :: "user list"

text \<open>
  The error responses of the handlers, named after the taxonomy of the specification:
  \<^item> \<open>InvalidInput\<close>: status 400, \<^verbatim>\<open>"User ID is required"\<close> or \<^verbatim>\<open>"Spot ID is required"\<close>;
  \<^item> \<open>UserNotFound\<close>: status 404, \<^verbatim>\<open>"Invalid User ID."\<close>;
  \<^item> \<open>SpotNotFound\<close>: status 404, \<^verbatim>\<open>"Spot ID ... does not exist."\<close>;
  \<^item> \<open>AlreadyFree\<close>: status 409, \<^verbatim>\<open>"Spot ... is already free."\<close>;
  \<^item> \<open>NoCapacity\<close>: status 409, \<^verbatim>\<open>"All spots are currently occupied."\<close>.

  \<open>InternalError\<close> is the status 500 of an exception: \<open>release_spot\<close> catches it
  (\<^verbatim>\<open>except Exception as e\<close>) and answers with its text, \<open>allocate_spot\<close> lets it
  escape and Flask answers for it. It is not in the taxonomy of the specification.
\<close>

datatype error =
  InvalidInput | UserNotFound | SpotNotFound | AlreadyFree | NoCapacity | InternalError

fun http_status :: "error \<Rightarrow> nat" where
  "http_status InvalidInput = 400"
| "http_status UserNotFound = 404"
| "http_status SpotNotFound = 404"
| "http_status AlreadyFree = 409"
| "http_status NoCapacity = 409"
| "http_status InternalError = 500"

section \<open>The SQL and Python primitives the handlers use\<close>

text \<open>\<^verbatim>\<open>cursor.fetchone()\<close>: the first row of the result, or \<^verbatim>\<open>None\<close>.\<close>

definition fetchone :: "'a list \<Rightarrow> 'a option" where
  "fetchone rows = (case rows of [] \<Rightarrow> None | r # _ \<Rightarrow> Some r)"

text \<open>
  A Python integer bound to a \<^verbatim>\<open>?\<close> of a statement must fit SQLite's \<^verbatim>\<open>INTEGER\<close>, a
  signed 64-bit number; for any other integer \<^verbatim>\<open>execute\<close> raises \<^verbatim>\<open>OverflowError\<close>
  ("Python int too large to convert to SQLite INTEGER"). The ids of a request are Python
  integers of any size. The ids in a table are ones SQLite stores, so an id outside the
  range matches no row: a lookup by id raises exactly when it finds no row and the id is
  outside the range.
\<close>

definition sqlite_integer :: "int \<Rightarrow> bool" where
  "sqlite_integer n \<longleftrightarrow> - (2 ^ 63) \<le> n \<and> n < 2 ^ 63"

text \<open>\<^verbatim>\<open>d.get(k, default)\<close> on a Python dictionary.\<close>

definition dict_get :: "('k \<rightharpoonup> 'v) \<Rightarrow> 'k \<Rightarrow> 'v \<Rightarrow> 'v" where
  "dict_get d k dflt = (case d k of None \<Rightarrow> dflt | Some v \<Rightarrow> v)"

text \<open>
  \<^verbatim>\<open>SELECT spot_id FROM ParkingSpots WHERE floor = ? AND spot_type = <tier>
  AND is_occupied = 0 ORDER BY spot_id ASC LIMIT 1\<close>, followed by \<^verbatim>\<open>fetchone()\<close>
  and the read of the column \<^verbatim>\<open>spot_id\<close>.
\<close>

definition query_floor :: "spot list \<Rightarrow> string \<Rightarrow> string \<Rightarrow> int option" where
  "query_floor tbl tier fl =
     map_option spot_id (fetchone (sort_key spot_id
       (filter (\<lambda>r. floor_name r = fl \<and> spot_type r = tier \<and> is_occupied r = 0) tbl)))"

text \<open>
  \<^verbatim>\<open>SELECT spot_id FROM ParkingSpots WHERE spot_type = <tier> AND is_occupied = 0
  ORDER BY spot_id ASC LIMIT 1\<close>, followed by \<^verbatim>\<open>fetchone()\<close>.
\<close>

definition query_any :: "spot list \<Rightarrow> string \<Rightarrow> int option" where
  "query_any tbl tier =
     map_option spot_id (fetchone (sort_key spot_id
       (filter (\<lambda>r. spot_type r = tier \<and> is_occupied r = 0) tbl)))"

text \<open>\<^verbatim>\<open>UPDATE ParkingSpots SET is_occupied = v WHERE spot_id = ?\<close>.\<close>

definition update_occupied :: "int \<Rightarrow> int \<Rightarrow> spot list \<Rightarrow> spot list" where
  "update_occupied v sid tbl =
     map (\<lambda>r. if spot_id r = sid then r\<lparr>is_occupied := v\<rparr> else r) tbl"

section \<open>\<^verbatim>\<open>init_db\<close>: the seed data\<close>

definition spots_data :: "spot list" where
  "spots_data =
     [\<lparr>spot_id = 1, floor_name = ''Parking 1'', spot_type = ''Premium'', is_occupied = 1\<rparr>,
      \<lparr>spot_id = 2, floor_name = ''Parking 1'', spot_type = ''Premium'', is_occupied = 0\<rparr>,
      \<lparr>spot_id = 3, floor_name = ''Parking 1'', spot_type = ''Premium'', is_occupied = 1\<rparr>,
      \<lparr>spot_id = 4, floor_name = ''Parking 1'', spot_type = ''Premium'', is_occupied = 0\<rparr>,
      \<lparr>spot_id = 5, floor_name = ''Parking 1'', spot_type = ''Standard'', is_occupied = 0\<rparr>,
      \<lparr>spot_id = 6, floor_name = ''Parking 1'', spot_type = ''Standard'', is_occupied = 1\<rparr>,
      \<lparr>spot_id = 7, floor_name = ''Parking 1'', spot_type = ''Standard'', is_occupied = 0\<rparr>,
      \<lparr>spot_id = 8, floor_name = ''Parking 1'', spot_type = ''Standard'', is_occupied = 1\<rparr>,
      \<lparr>spot_id = 9, floor_name = ''Parking 1'', spot_type = ''Standard'', is_occupied = 0\<rparr>,
      \<lparr>spot_id = 10, floor_name = ''Parking 1'', spot_type = ''Standard'', is_occupied = 1\<rparr>,
      \<lparr>spot_id = 11, floor_name = ''Parking 2'', spot_type = ''Premium'', is_occupied = 1\<rparr>,
      \<lparr>spot_id = 12, floor_name = ''Parking 2'', spot_type = ''Premium'', is_occupied = 0\<rparr>]
     @ map (\<lambda>i. \<lparr>spot_id = i, floor_name = ''Parking 2'', spot_type = ''Standard'',
                 is_occupied = (if i mod 2 = 0 then 1 else 0)\<rparr>) [13..20]"

definition users_data :: "user list" where
  "users_data =
     [\<lparr>user_id = 101, role = ''Teacher'', is_premium = 1\<rparr>,
      \<lparr>user_id = 102, role = ''Student'', is_premium = 0\<rparr>,
      \<lparr>user_id = 103, role = ''Premium Student'', is_premium = 1\<rparr>]"

text \<open>Both tables are dropped, created again and filled with the mock data.\<close>

definition init_db :: db where
  "init_db = \<lparr>ParkingSpots = spots_data, Users = users_data\<rparr>"

section \<open>\<^verbatim>\<open>get_spots\<close>\<close>

text \<open>
  \<^verbatim>\<open>SELECT * FROM ParkingSpots\<close>, every row turned into a dictionary of its four
  columns. The statement has no \<^verbatim>\<open>ORDER BY\<close>: the rows come in the order of the
  table scan, which is the storage order.
\<close>

definition get_spots :: "db \<Rightarrow> spot list" where
  "get_spots d = ParkingSpots d"

section \<open>\<^verbatim>\<open>get_least_dense_floor\<close>\<close>

text \<open>
  \<^verbatim>\<open>SELECT floor, SUM(CASE WHEN is_occupied = 1 THEN 1 ELSE 0 END) as occupied_count,
  COUNT(spot_id) as total_count FROM ParkingSpots GROUP BY floor\<close>: one result row per
  floor that has at least one spot.
\<close>

definition floor_data :: "spot list \<Rightarrow> (string \<times> nat \<times> nat) list" where
  "floor_data tbl =
     map (\<lambda>fl. let grp = filter (\<lambda>r. floor_name r = fl) tbl
               in (fl, sum_list (map (\<lambda>r. if is_occupied r = 1 then 1 else 0) grp), length grp))
         (remdups (map floor_name tbl))"

text \<open>
  The loop that fills \<^verbatim>\<open>density_map\<close>. Python's quotient \<^verbatim>\<open>occupied / total\<close> of two
  integers is a float; it is modelled by the exact quotient in the reals.
\<close>

definition density_map :: "(string \<times> nat \<times> nat) list \<Rightarrow> (string \<rightharpoonup> real)" where
  "density_map rows =
     fold (\<lambda>(fl, occupied, total) m.
             m(fl \<mapsto> (if total > 0 then real occupied / real total else 1)))
          rows Map.empty"

definition get_least_dense_floor :: "spot list \<Rightarrow> string" where
  "get_least_dense_floor tbl =
     (let dm = density_map (floor_data tbl);
          min_density = dict_get dm ''Parking 1'' 1;
          p2_density = dict_get dm ''Parking 2'' 1
      in if p2_density < min_density then ''Parking 2'' else ''Parking 1'')"

section \<open>\<^verbatim>\<open>allocate_spot\<close>\<close>

text \<open>
  The body of the handler between the user lookup and the update: the two variables
  \<^verbatim>\<open>allocated_spot_id\<close> and \<^verbatim>\<open>query_message\<close> start as \<^verbatim>\<open>None\<close> and the empty string and
  are assigned by the blocks 2, 3 and 4 in turn. Each block is a function from the pair of
  variables to the pair of variables.
\<close>

definition premium_priority ::
  "spot list \<Rightarrow> int \<Rightarrow> string \<Rightarrow> int option \<times> string \<Rightarrow> int option \<times> string" where
  "premium_priority tbl is_prem target_floor v =
     (if is_prem = 1 then
        (case query_floor tbl ''Premium'' target_floor of
           Some sid \<Rightarrow>
             (Some sid, ''Allocated nearest Premium spot in '' @ target_floor @ '' (Least Dense).'')
         | None \<Rightarrow> v)
      else v)"

definition standard_priority ::
  "spot list \<Rightarrow> int \<Rightarrow> string \<Rightarrow> int option \<times> string \<Rightarrow> int option \<times> string" where
  "standard_priority tbl is_prem target_floor v =
     (if fst v = None then
        (case query_floor tbl ''Standard'' target_floor of
           Some sid \<Rightarrow>
             (Some sid,
              if is_prem = 1
              then ''Premium spots in '' @ target_floor @ '' are full. Allocated nearest Standard spot.''
              else ''Allocated nearest Standard spot in '' @ target_floor @ ''.'')
         | None \<Rightarrow> v)
      else v)"

definition overflow_fallback ::
  "spot list \<Rightarrow> int \<Rightarrow> int option \<times> string \<Rightarrow> int option \<times> string" where
  "overflow_fallback tbl is_prem v =
     (if fst v = None then
        (let v1 = (if is_prem = 1 then
                     (case query_any tbl ''Premium'' of
                        Some sid \<Rightarrow>
                          (Some sid, ''Least dense area full. Allocated nearest available Premium spot.'')
                      | None \<Rightarrow> v)
                   else v)
         in if fst v1 = None then
              (case query_any tbl ''Standard'' of
                 Some sid \<Rightarrow>
                   (Some sid, ''Least dense area full. Allocated nearest available Standard spot.'')
               | None \<Rightarrow> v1)
            else v1)
      else v)"

definition select_spot :: "spot list \<Rightarrow> int \<Rightarrow> int option \<times> string" where
  "select_spot tbl is_prem =
     (let target_floor = get_least_dense_floor tbl
      in overflow_fallback tbl is_prem
           (standard_priority tbl is_prem target_floor
              (premium_priority tbl is_prem target_floor (None, ''''))))"

text \<open>
  The handler. Its argument is the field \<^verbatim>\<open>user_id\<close> of the request's JSON body:
  \<open>None\<close> when the key is absent or \<^verbatim>\<open>null\<close>, \<open>Some n\<close> for the integer \<open>n\<close>.
  \<^verbatim>\<open>if not user_id\<close> holds for \<^verbatim>\<open>None\<close> and for the integer 0. The result is the
  response and the database after the request. When the lookup of the user raises, for an
  id that does not fit SQLite's \<^verbatim>\<open>INTEGER\<close>, nothing catches the exception: the answer
  is the status 500 and nothing is written.
\<close>

definition allocate_spot :: "db \<Rightarrow> int option \<Rightarrow> (error + int \<times> string) \<times> db" where
  "allocate_spot d req =
     (case req of
        None \<Rightarrow> (Inl InvalidInput, d)
      | Some uid \<Rightarrow>
          if uid = 0 then (Inl InvalidInput, d)
          else
            (case fetchone (filter (\<lambda>u. user_id u = uid) (Users d)) of
               None \<Rightarrow>
                 if sqlite_integer uid then (Inl UserNotFound, d) else (Inl InternalError, d)
             | Some usr \<Rightarrow>
                 (case select_spot (ParkingSpots d) (is_premium usr) of
                    (Some allocated_spot_id, query_message) \<Rightarrow>
                      (Inr (allocated_spot_id, query_message),
                       d\<lparr>ParkingSpots := update_occupied 1 allocated_spot_id (ParkingSpots d)\<rparr>)
                  | (None, _) \<Rightarrow> (Inl NoCapacity, d))))"

section \<open>\<^verbatim>\<open>release_spot\<close>\<close>

text \<open>
  The argument is the field \<^verbatim>\<open>spot_id\<close> of the request's JSON body, read as for
  \<open>allocate_spot\<close>. A successful response carries the id of the released spot. The
  lookup of the spot is inside \<^verbatim>\<open>try\<close>: when it raises, for an id that does not fit
  SQLite's \<^verbatim>\<open>INTEGER\<close>, \<^verbatim>\<open>except Exception\<close> answers with the status 500, and nothing is
  written.
\<close>

definition release_spot :: "db \<Rightarrow> int option \<Rightarrow> (error + int) \<times> db" where
  "release_spot d req =
     (case req of
        None \<Rightarrow> (Inl InvalidInput, d)
      | Some sid \<Rightarrow>
          if sid = 0 then (Inl InvalidInput, d)
          else
            (case fetchone (filter (\<lambda>r. spot_id r = sid) (ParkingSpots d)) of
               None \<Rightarrow>
                 if sqlite_integer sid then (Inl SpotNotFound, d) else (Inl InternalError, d)
             | Some sp \<Rightarrow>
                 if is_occupied sp = 0 then (Inl AlreadyFree, d)
                 else (Inr sid, d\<lparr>ParkingSpots := update_occupied 0 sid (ParkingSpots d)\<rparr>)))"

section \<open>The operations of the specification\<close>

text \<open>
  The definitions of this section follow the words of the specification, not the code: they
  are what the code is compared with. A spot is free when its flag is 0; \<open>lowest\<close> is the
  tie-break "lowest spot id wins", with \<open>None\<close> for "no candidate".
\<close>

definition lowest :: "int set \<Rightarrow> int option" where
  "lowest S = (if S = {} then None else Some (Min S))"

definition findFreeSpot :: "spot list \<Rightarrow> string \<Rightarrow> string \<Rightarrow> int option" where
  "findFreeSpot tbl loc tier =
     lowest (spot_id ` {r \<in> set tbl. floor_name r = loc \<and> spot_type r = tier \<and> is_occupied r = 0})"

definition findFreeSpotAnyLocation :: "spot list \<Rightarrow> string \<Rightarrow> int option" where
  "findFreeSpotAnyLocation tbl tier =
     lowest (spot_id ` {r \<in> set tbl. spot_type r = tier \<and> is_occupied r = 0})"

definition cascade :: "spot list \<Rightarrow> bool \<Rightarrow> string \<Rightarrow> int option" where
  "cascade tbl premium target =
     (case (if premium then findFreeSpot tbl target ''Premium'' else None) of
        Some i \<Rightarrow> Some i
      | None \<Rightarrow>
          (case findFreeSpot tbl target ''Standard'' of
             Some i \<Rightarrow> Some i
           | None \<Rightarrow>
               (case (if premium then findFreeSpotAnyLocation tbl ''Premium'' else None) of
                  Some i \<Rightarrow> Some i
                | None \<Rightarrow> findFreeSpotAnyLocation tbl ''Standard'')))"

text \<open>
  The density of a location: the number of its occupied spots over the number of its spots,
  and 1 for a location without spots.
\<close>

definition total_count :: "spot list \<Rightarrow> string \<Rightarrow> nat" where
  "total_count tbl loc = length (filter (\<lambda>r. floor_name r = loc) tbl)"

definition occupied_count :: "spot list \<Rightarrow> string \<Rightarrow> nat" where
  "occupied_count tbl loc = length (filter (\<lambda>r. floor_name r = loc \<and> is_occupied r = 1) tbl)"

definition density :: "spot list \<Rightarrow> string \<Rightarrow> real" where
  "density tbl loc =
     (if total_count tbl loc = 0 then 1
      else real (occupied_count tbl loc) / real (total_count tbl loc))"

section \<open>The states the program can be in\<close>

text \<open>
  The database is created by \<open>init_db\<close> when the server starts; afterwards only the two
  handlers \<open>allocate_spot\<close> and \<open>release_spot\<close> write to it, once per request.
\<close>

inductive reachable :: "db \<Rightarrow> bool" where
  start: "reachable init_db"
| allocate: "reachable d \<Longrightarrow> reachable (snd (allocate_spot d req))"
| release: "reachable d \<Longrightarrow> reachable (snd (release_spot d req))"

text \<open>
  An occupancy state: the table holds the spots of the seed, row for row, each with some
  value of the flag. Spots are created by \<open>init_db\<close> only and never deleted.
\<close>

definition occupancy_state :: "db \<Rightarrow> bool" where
  "occupancy_state d \<longleftrightarrow>
     map (\<lambda>r. (spot_id r, floor_name r, spot_type r)) (ParkingSpots d) =
     map (\<lambda>r. (spot_id r, floor_name r, spot_type r)) spots_data"

section \<open>A table with one empty floor\<close>

text \<open>Two spots on Parking 1, one of them occupied, and no spot on Parking 2.\<close>

definition lot_a_only :: "spot list" where
  "lot_a_only =
     [\<lparr>spot_id = 1, floor_name = ''Parking 1'', spot_type = ''Standard'', is_occupied = 1\<rparr>,
      \<lparr>spot_id = 2, floor_name = ''Parking 1'', spot_type = ''Standard'', is_occupied = 0\<rparr>]"

section \<open>The queries return the lowest free id\<close>

lemma order_by_limit1:
  "map_option f (fetchone (sort_key f xs)) =
     (if xs = [] then None else Some (Min (f ` set xs)))"
proof (cases "sort_key f xs")
  case Nil
  then have "xs = []" by (metis length_sort length_0_conv)
  with Nil show ?thesis by (simp add: fetchone_def)
next
  case (Cons r rs)
  then have ne: "xs \<noteq> []" by auto
  have mem: "r \<in> set xs" using Cons by (metis list.set_intros(1) set_sort)
  have srt: "sorted (map f (r # rs))" using Cons sorted_sort_key [of f xs] by simp
  have "\<forall>y \<in> set xs. f r \<le> f y"
  proof
    fix y assume "y \<in> set xs"
    then have "y \<in> set (r # rs)" using Cons by (metis set_sort)
    then show "f r \<le> f y" using srt by auto
  qed
  then have "Min (f ` set xs) = f r"
    using mem by (intro Min_eqI) auto
  with Cons ne show ?thesis by (simp add: fetchone_def)
qed

lemma query_floor_spec: "query_floor tbl tier fl = findFreeSpot tbl fl tier"
  by (auto simp: query_floor_def findFreeSpot_def lowest_def order_by_limit1 filter_empty_conv)

lemma query_any_spec: "query_any tbl tier = findFreeSpotAnyLocation tbl tier"
  by (auto simp: query_any_def findFreeSpotAnyLocation_def lowest_def order_by_limit1 filter_empty_conv)

lemma fst_premium_priority:
  "fst (premium_priority tbl p t v) =
     (if p = 1 then (case query_floor tbl ''Premium'' t of Some i \<Rightarrow> Some i | None \<Rightarrow> fst v)
      else fst v)"
  unfolding premium_priority_def by (cases "query_floor tbl ''Premium'' t") simp_all

lemma fst_standard_priority:
  "fst (standard_priority tbl p t v) =
     (case fst v of
        Some i \<Rightarrow> Some i
      | None \<Rightarrow> query_floor tbl ''Standard'' t)"
  unfolding standard_priority_def
  by (cases "query_floor tbl ''Standard'' t"; cases "fst v") simp_all

lemma fst_overflow_fallback:
  "fst (overflow_fallback tbl p v) =
     (case fst v of
        Some i \<Rightarrow> Some i
      | None \<Rightarrow>
          (case (if p = 1 then query_any tbl ''Premium'' else None) of
             Some i \<Rightarrow> Some i
           | None \<Rightarrow> query_any tbl ''Standard''))"
  unfolding overflow_fallback_def Let_def
  by (cases "query_any tbl ''Premium''"; cases "query_any tbl ''Standard''"; cases "fst v")
     simp_all

lemma select_spot_cascade:
  "fst (select_spot tbl p) = cascade tbl (p = 1) (get_least_dense_floor tbl)"
  unfolding select_spot_def Let_def fst_overflow_fallback fst_standard_priority
    fst_premium_priority cascade_def query_floor_spec query_any_spec
  by (simp split: option.splits)

section \<open>The density map holds the density of every floor\<close>

lemma sum_case_count:
  "sum_list (map (\<lambda>r. if P r then 1 else 0) xs) = length (filter P xs)"
  by (induction xs) auto

lemma floor_data_lookup:
  "map_of (floor_data tbl) fl =
     (if total_count tbl fl = 0 then None
      else Some (occupied_count tbl fl, total_count tbl fl))"
proof -
  have in_set: "fl \<in> set (map floor_name tbl) \<longleftrightarrow> total_count tbl fl \<noteq> 0"
    by (auto simp: total_count_def filter_empty_conv)
  have "map_of (floor_data tbl) fl =
          (if fl \<in> set (map floor_name tbl)
           then Some (occupied_count tbl fl, total_count tbl fl) else None)"
    unfolding floor_data_def
    by (induction "remdups (map floor_name tbl)")
       (auto simp: Let_def sum_case_count occupied_count_def total_count_def map_of_map_restrict restrict_map_def)
  with in_set show ?thesis by simp
qed

lemma density_map_fold:
  "distinct (map fst rows) \<Longrightarrow>
   fold (\<lambda>(fl, occupied, total) m. m(fl \<mapsto> g occupied total)) rows m0 k =
     (case map_of rows k of None \<Rightarrow> m0 k | Some (a, b) \<Rightarrow> Some (g a b))"
proof (induction rows arbitrary: m0)
  case Nil
  then show ?case by simp
next
  case (Cons x xs)
  obtain fl a b where x: "x = (fl, a, b)" by (cases x) auto
  from Cons.prems x have nin: "fl \<notin> fst ` set xs" and d: "distinct (map fst xs)" by auto
  from nin have none: "map_of xs fl = None" by (simp add: map_of_eq_None_iff)
  show ?case
    using Cons.IH [OF d, of "m0(fl \<mapsto> g a b)"] none x
    by (auto split: option.splits)
qed

lemma floor_data_keys: "map fst (floor_data tbl) = remdups (map floor_name tbl)"
  by (simp add: floor_data_def Let_def comp_def)

lemma density_lookup:
  "dict_get (density_map (floor_data tbl)) fl 1 = density tbl fl"
proof -
  have d: "distinct (map fst (floor_data tbl))" by (simp add: floor_data_keys)
  show ?thesis
    unfolding density_map_def dict_get_def density_map_fold [OF d] floor_data_lookup density_def
    by simp
qed

lemma occupied_le_total: "occupied_count tbl fl \<le> total_count tbl fl"
proof -
  have "filter (\<lambda>r. floor_name r = fl \<and> is_occupied r = 1) tbl =
        filter (\<lambda>r. is_occupied r = 1) (filter (\<lambda>r. floor_name r = fl) tbl)"
    by (simp add: conj_commute)
  then show ?thesis
    unfolding occupied_count_def total_count_def by (metis length_filter_le)
qed

lemma density_range: "0 \<le> density tbl fl \<and> density tbl fl \<le> 1"
  using occupied_le_total [of tbl fl] by (simp add: density_def)

lemma target_floor_density:
  "get_least_dense_floor tbl =
     (if density tbl ''Parking 2'' < density tbl ''Parking 1'' then ''Parking 2'' else ''Parking 1'')"
  by (simp only: get_least_dense_floor_def Let_def density_lookup)

section \<open>What an allocation does\<close>

lemma lowest_Some_mem: "finite S \<Longrightarrow> lowest S = Some i \<Longrightarrow> i \<in> S"
proof -
  assume fin: "finite S" and low: "lowest S = Some i"
  from low have ne: "S \<noteq> {}" and i: "i = Min S"
    by (simp_all add: lowest_def split: if_splits)
  from fin ne have "Min S \<in> S" by (rule Min_in)
  with i show ?thesis by simp
qed

lemma findFreeSpot_free:
  "findFreeSpot tbl loc tier = Some i \<Longrightarrow>
   \<exists>r \<in> set tbl. spot_id r = i \<and> floor_name r = loc \<and> spot_type r = tier \<and> is_occupied r = 0"
proof -
  assume a: "findFreeSpot tbl loc tier = Some i"
  have "i \<in> spot_id ` {r \<in> set tbl. floor_name r = loc \<and> spot_type r = tier \<and> is_occupied r = 0}"
    by (rule lowest_Some_mem) (use a in \<open>simp_all add: findFreeSpot_def\<close>)
  then show ?thesis by auto
qed

lemma findFreeSpotAnyLocation_free:
  "findFreeSpotAnyLocation tbl tier = Some i \<Longrightarrow>
   \<exists>r \<in> set tbl. spot_id r = i \<and> spot_type r = tier \<and> is_occupied r = 0"
proof -
  assume a: "findFreeSpotAnyLocation tbl tier = Some i"
  have "i \<in> spot_id ` {r \<in> set tbl. spot_type r = tier \<and> is_occupied r = 0}"
    by (rule lowest_Some_mem) (use a in \<open>simp_all add: findFreeSpotAnyLocation_def\<close>)
  then show ?thesis by auto
qed

lemma cascade_free:
  "cascade tbl prem target = Some i \<Longrightarrow> \<exists>r \<in> set tbl. spot_id r = i \<and> is_occupied r = 0"
  unfolding cascade_def
  by (auto split: option.splits if_splits
           dest!: findFreeSpot_free findFreeSpotAnyLocation_free)

lemma update_occupied_one:
  assumes d: "distinct (map spot_id tbl)" and i: "i < length tbl"
  shows "update_occupied v (spot_id (tbl ! i)) tbl = tbl[i := (tbl ! i)\<lparr>is_occupied := v\<rparr>]"
proof (rule nth_equalityI)
  show "length (update_occupied v (spot_id (tbl ! i)) tbl) =
        length (tbl[i := (tbl ! i)\<lparr>is_occupied := v\<rparr>])"
    by (simp add: update_occupied_def)
next
  fix j assume "j < length (update_occupied v (spot_id (tbl ! i)) tbl)"
  then have j: "j < length tbl" by (simp add: update_occupied_def)
  have "spot_id (tbl ! j) = spot_id (tbl ! i) \<longleftrightarrow> j = i"
    using d i j nth_eq_iff_index_eq [of "map spot_id tbl" j i] by simp
  then show "update_occupied v (spot_id (tbl ! i)) tbl ! j =
             tbl[i := (tbl ! i)\<lparr>is_occupied := v\<rparr>] ! j"
    using i j by (simp add: update_occupied_def nth_list_update)
qed

lemma update_occupied_ids: "map spot_id (update_occupied v sid tbl) = map spot_id tbl"
  by (simp add: update_occupied_def comp_def if_distrib [of spot_id] cong: if_cong)

lemma allocate_spot_valid:
  assumes "uid \<noteq> 0" and "fetchone (filter (\<lambda>u. user_id u = uid) (Users d)) = Some usr"
  shows "allocate_spot d (Some uid) =
     (case cascade (ParkingSpots d) (is_premium usr = 1) (get_least_dense_floor (ParkingSpots d)) of
        None \<Rightarrow> (Inl NoCapacity, d)
      | Some i \<Rightarrow>
          (Inr (i, snd (select_spot (ParkingSpots d) (is_premium usr))),
           d\<lparr>ParkingSpots := update_occupied 1 i (ParkingSpots d)\<rparr>))"
proof -
  obtain a m where sel: "select_spot (ParkingSpots d) (is_premium usr) = (a, m)"
    by (cases "select_spot (ParkingSpots d) (is_premium usr)")
  then have c: "cascade (ParkingSpots d) (is_premium usr = 1) (get_least_dense_floor (ParkingSpots d)) = a"
    using select_spot_cascade [of "ParkingSpots d" "is_premium usr"] by simp
  show ?thesis
    unfolding c using assms sel by (cases a) (simp_all add: allocate_spot_def)
qed

section \<open>The seed data, evaluated\<close>

lemma seed_floor_data:
  "floor_data spots_data = [(''Parking 1'', 5, 10), (''Parking 2'', 5, 10)]"
  by (simp add: floor_data_def spots_data_def)

lemma seed_users_102:
  "fetchone (filter (\<lambda>u. user_id u = 102) (Users init_db)) =
     Some \<lparr>user_id = 102, role = ''Student'', is_premium = 0\<rparr>"
  by (simp add: init_db_def users_data_def fetchone_def)

lemma seed_users_101:
  "fetchone (filter (\<lambda>u. user_id u = 101) (Users init_db)) =
     Some \<lparr>user_id = 101, role = ''Teacher'', is_premium = 1\<rparr>"
  by (simp add: init_db_def users_data_def fetchone_def)

lemma seed_density_p1: "dict_get (density_map (floor_data spots_data)) ''Parking 1'' 1 = 1 / 2"
  by (simp add: seed_floor_data density_map_def dict_get_def)

lemma seed_density_p2: "dict_get (density_map (floor_data spots_data)) ''Parking 2'' 1 = 1 / 2"
  by (simp add: seed_floor_data density_map_def dict_get_def)

lemma seed_target: "get_least_dense_floor spots_data = ''Parking 1''"
  by (simp add: get_least_dense_floor_def seed_density_p1 seed_density_p2)

lemma seed_query_standard: "query_floor spots_data ''Standard'' ''Parking 1'' = Some 5"
  by (simp add: query_floor_def spots_data_def fetchone_def)

lemma seed_query_premium: "query_floor spots_data ''Premium'' ''Parking 1'' = Some 2"
  by (simp add: query_floor_def spots_data_def fetchone_def)

lemma seed_select_standard:
  "select_spot spots_data 0 = (Some 5, ''Allocated nearest Standard spot in Parking 1.'')"
  by (simp add: select_spot_def seed_target premium_priority_def standard_priority_def
      overflow_fallback_def seed_query_standard)

lemma seed_select_premium:
  "select_spot spots_data 1 =
     (Some 2, ''Allocated nearest Premium spot in Parking 1 (Least Dense).'')"
  by (simp add: select_spot_def seed_target premium_priority_def standard_priority_def
      overflow_fallback_def seed_query_premium)

lemma seed_ids:
  "map spot_id spots_data = [1, 2, 3, 4, 5, 6, 7, 8, 9, 10, 11, 12, 13, 14, 15, 16, 17, 18, 19, 20]"
  by (simp add: spots_data_def)

lemma seed_total_p1: "total_count spots_data ''Parking 1'' = 10"
  by (simp add: total_count_def spots_data_def)

lemma seed_total_p2: "total_count spots_data ''Parking 2'' = 10"
  by (simp add: total_count_def spots_data_def)

lemma seed_occupied_p1: "occupied_count spots_data ''Parking 1'' = 5"
  by (simp add: occupied_count_def spots_data_def)

lemma seed_occupied_p2: "occupied_count spots_data ''Parking 2'' = 5"
  by (simp add: occupied_count_def spots_data_def)

lemma seed_spec_density_p1: "density spots_data ''Parking 1'' = 1 / 2"
  by (simp add: density_def seed_total_p1 seed_occupied_p1)

lemma seed_spec_density_p2: "density spots_data ''Parking 2'' = 1 / 2"
  by (simp add: density_def seed_total_p2 seed_occupied_p2)

lemma seed_distinct: "distinct (map spot_id spots_data)"
  by (simp add: seed_ids)

lemma seed_release_1:
  "release_spot init_db (Some 1) =
     (Inr 1, init_db\<lparr>ParkingSpots := update_occupied 0 1 (ParkingSpots init_db)\<rparr>)"
proof -
  have "fetchone (filter (\<lambda>r. spot_id r = 1) (ParkingSpots init_db)) =
          Some \<lparr>spot_id = 1, floor_name = ''Parking 1'', spot_type = ''Premium'', is_occupied = 1\<rparr>"
    by (simp add: init_db_def spots_data_def fetchone_def)
  then show ?thesis by (simp add: release_spot_def)
qed

section \<open>Lookups by primary key\<close>

lemma fetchone_filter_None:
  "fetchone (filter P xs) = None \<longleftrightarrow> (\<forall>x \<in> set xs. \<not> P x)"
proof -
  have "fetchone (filter P xs) = None \<longleftrightarrow> filter P xs = []"
    by (cases "filter P xs") (simp_all add: fetchone_def)
  then show ?thesis by (simp add: filter_empty_conv)
qed

lemma fetchone_filter_Some:
  "fetchone (filter P xs) = Some x \<Longrightarrow> x \<in> set xs \<and> P x"
proof -
  assume "fetchone (filter P xs) = Some x"
  then have "x \<in> set (filter P xs)"
    by (cases "filter P xs") (auto simp: fetchone_def)
  then show ?thesis by simp
qed

lemma unique_row:
  assumes "distinct (map spot_id tbl)" "r \<in> set tbl" "r' \<in> set tbl" "spot_id r = spot_id r'"
  shows "r = r'"
  using assms by (meson distinct_map inj_onD)

lemma fetchone_by_id:
  assumes "distinct (map spot_id tbl)" "r \<in> set tbl"
  shows "fetchone (filter (\<lambda>x. spot_id x = spot_id r) tbl) = Some r"
proof (cases "fetchone (filter (\<lambda>x. spot_id x = spot_id r) tbl)")
  case None
  with assms(2) show ?thesis by (auto simp: fetchone_filter_None)
next
  case (Some x)
  from fetchone_filter_Some [OF Some] have "x \<in> set tbl" "spot_id x = spot_id r" by auto
  with assms have "x = r" by (auto intro: unique_row)
  with Some show ?thesis by simp
qed

lemma update_occupied_set:
  "set (update_occupied v sid tbl) =
     (\<lambda>r. if spot_id r = sid then r\<lparr>is_occupied := v\<rparr> else r) ` set tbl"
  by (simp add: update_occupied_def)

lemma findFreeSpot_exists:
  assumes "r \<in> set tbl" "floor_name r = loc" "spot_type r = tier" "is_occupied r = 0"
  shows "\<exists>i. findFreeSpot tbl loc tier = Some i"
proof -
  have "spot_id r \<in> spot_id ` {r \<in> set tbl. floor_name r = loc \<and> spot_type r = tier \<and> is_occupied r = 0}"
    using assms by blast
  then have "spot_id ` {r \<in> set tbl. floor_name r = loc \<and> spot_type r = tier \<and> is_occupied r = 0} \<noteq> {}"
    by blast
  then show ?thesis by (simp add: findFreeSpot_def lowest_def)
qed

section \<open>Ids that do not fit SQLite's integer\<close>

text \<open>
  On a table whose ids are ones SQLite stores, a request with a non-zero id outside the
  range is answered with the status 500 by both handlers, as the exception of the binding
  is raised before any row is read; nothing is written.
\<close>

lemma release_spot_binding_error:
  assumes "\<forall>r \<in> set (ParkingSpots d). sqlite_integer (spot_id r)"
      and "sid \<noteq> 0" and "\<not> sqlite_integer sid"
  shows "release_spot d (Some sid) = (Inl InternalError, d)"
proof -
  have "fetchone (filter (\<lambda>r. spot_id r = sid) (ParkingSpots d)) = None"
    using assms(1,3) by (auto simp: fetchone_filter_None)
  with assms(2,3) show ?thesis by (simp add: release_spot_def)
qed

lemma allocate_spot_binding_error:
  assumes "\<forall>u \<in> set (Users d). sqlite_integer (user_id u)"
      and "uid \<noteq> 0" and "\<not> sqlite_integer uid"
  shows "allocate_spot d (Some uid) = (Inl InternalError, d)"
proof -
  have "fetchone (filter (\<lambda>u. user_id u = uid) (Users d)) = None"
    using assms(1,3) by (auto simp: fetchone_filter_None)
  with assms(2,3) show ?thesis by (simp add: allocate_spot_def)
qed

lemma seed_ids_fit:
  "(\<forall>r \<in> set (ParkingSpots init_db). sqlite_integer (spot_id r)) \<and>
   (\<forall>u \<in> set (Users init_db). sqlite_integer (user_id u))"
  by (simp add: init_db_def spots_data_def users_data_def sqlite_integer_def)

section \<open>What a release does\<close>

lemma release_spot_found:
  assumes nz: "sid \<noteq> 0" and ids: "distinct (map spot_id (ParkingSpots d))"
      and r: "r \<in> set (ParkingSpots d)" "spot_id r = sid"
  shows "release_spot d (Some sid) =
           (if is_occupied r = 0 then (Inl AlreadyFree, d)
            else (Inr sid, d\<lparr>ParkingSpots := update_occupied 0 sid (ParkingSpots d)\<rparr>))"
  using fetchone_by_id [OF ids r(1)] nz r(2) by (simp add: release_spot_def)

lemma release_spot_missing:
  assumes "sid \<notin> spot_id ` set (ParkingSpots d)"
  shows "release_spot d (Some sid) =
           (Inl (if sid = 0 then InvalidInput
                 else if sqlite_integer sid then SpotNotFound else InternalError), d)"
proof -
  have "fetchone (filter (\<lambda>r. spot_id r = sid) (ParkingSpots d)) = None"
    using assms by (auto simp: fetchone_filter_None)
  then show ?thesis by (simp add: release_spot_def)
qed

lemma release_spot_success:
  assumes "release_spot d req = (Inr sid, d')"
  shows "req = Some sid \<and> sid \<noteq> 0 \<and>
         (\<exists>sp. fetchone (filter (\<lambda>r. spot_id r = sid) (ParkingSpots d)) = Some sp \<and>
               is_occupied sp \<noteq> 0) \<and>
         d' = d\<lparr>ParkingSpots := update_occupied 0 sid (ParkingSpots d)\<rparr>"
  using assms by (auto simp: release_spot_def split: option.splits if_splits)

section \<open>The handlers keep the spots and their order\<close>

lemma update_occupied_columns:
  "map (\<lambda>r. (spot_id r, floor_name r, spot_type r)) (update_occupied v sid tbl) =
   map (\<lambda>r. (spot_id r, floor_name r, spot_type r)) tbl"
  by (induction tbl) (simp_all add: update_occupied_def)

lemma allocate_spot_columns:
  "map (\<lambda>r. (spot_id r, floor_name r, spot_type r)) (ParkingSpots (snd (allocate_spot d req))) =
   map (\<lambda>r. (spot_id r, floor_name r, spot_type r)) (ParkingSpots d)"
proof (cases req)
  case None
  then show ?thesis by (simp add: allocate_spot_def)
next
  case (Some uid)
  show ?thesis
  proof (cases "uid = 0 \<or> fetchone (filter (\<lambda>u. user_id u = uid) (Users d)) = None")
    case True
    with Some show ?thesis by (auto simp: allocate_spot_def)
  next
    case False
    then obtain usr where nz: "uid \<noteq> 0"
      and usr: "fetchone (filter (\<lambda>u. user_id u = uid) (Users d)) = Some usr" by auto
    show ?thesis
      unfolding Some allocate_spot_valid [OF nz usr]
      by (simp add: update_occupied_columns split: option.splits)
  qed
qed

lemma release_spot_columns:
  "map (\<lambda>r. (spot_id r, floor_name r, spot_type r)) (ParkingSpots (snd (release_spot d req))) =
   map (\<lambda>r. (spot_id r, floor_name r, spot_type r)) (ParkingSpots d)"
  by (simp add: release_spot_def update_occupied_columns split: option.splits)

lemma reachable_occupancy_state: "reachable d \<Longrightarrow> occupancy_state d"
  by (induction rule: reachable.induct)
     (simp_all add: occupancy_state_def init_db_def allocate_spot_columns release_spot_columns)

lemma occupancy_state_ids:
  assumes "occupancy_state d"
  shows "map spot_id (ParkingSpots d) =
           [1, 2, 3, 4, 5, 6, 7, 8, 9, 10, 11, 12, 13, 14, 15, 16, 17, 18, 19, 20]"
proof -
  have "map spot_id (ParkingSpots d) =
          map fst (map (\<lambda>r. (spot_id r, floor_name r, spot_type r)) (ParkingSpots d))"
    by (simp add: comp_def)
  also have "\<dots> = map fst (map (\<lambda>r. (spot_id r, floor_name r, spot_type r)) spots_data)"
    using assms by (simp only: occupancy_state_def)
  also have "\<dots> = map spot_id spots_data" by (simp add: comp_def)
  finally show ?thesis by (simp only: seed_ids)
qed

section \<open>The claims\<close>

text \<open>
  Claim C1. For a request with a non-zero user id that the table \<open>Users\<close> holds, the
  handler's answer is the one of the priority cascade of the specification, run on the
  target floor that \<open>get_least_dense_floor\<close> returns: (1) for a premium user the lowest free
  Premium id of the target floor; (2) else the lowest free Standard id of the target
  floor; (3) else, for a premium user, the lowest free Premium id of the whole table;
  (4) else the lowest free Standard id of the whole table; (5) else the failure
  \<open>NoCapacity\<close> with the database as it was. The first step that yields an id decides the
  answer, and that spot is the one marked occupied. A user is premium when the column
  \<^verbatim>\<open>is_premium\<close> is 1. User ids are positive in the specification's data model; the id 0
  never reaches the lookup (claim C10).
\<close>

theorem allocate_follows_cascade:
  assumes "uid \<noteq> 0"
      and "fetchone (filter (\<lambda>u. user_id u = uid) (Users d)) = Some usr"
  shows "allocate_spot d (Some uid) =
     (case cascade (ParkingSpots d) (is_premium usr = 1) (get_least_dense_floor (ParkingSpots d)) of
        None \<Rightarrow> (Inl NoCapacity, d)
      | Some i \<Rightarrow>
          (Inr (i, snd (select_spot (ParkingSpots d) (is_premium usr))),
           d\<lparr>ParkingSpots := update_occupied 1 i (ParkingSpots d)\<rparr>))"
  using assms by (rule allocate_spot_valid)

text \<open>
  At the seed data, for the premium user 101: the cascade stops at its first step with
  spot 2, and that is the handler's answer.
\<close>

theorem allocate_follows_cascade_witness:
  "(101::int) \<noteq> 0 \<and>
   fetchone (filter (\<lambda>u. user_id u = 101) (Users init_db)) =
     Some \<lparr>user_id = 101, role = ''Teacher'', is_premium = 1\<rparr> \<and>
   cascade (ParkingSpots init_db) True (get_least_dense_floor (ParkingSpots init_db)) = Some 2 \<and>
   allocate_spot init_db (Some 101) =
     (Inr (2, ''Allocated nearest Premium spot in Parking 1 (Least Dense).''),
      init_db\<lparr>ParkingSpots := update_occupied 1 2 (ParkingSpots init_db)\<rparr>)"
proof -
  have nz: "(101::int) \<noteq> 0" by simp
  have tbl: "ParkingSpots init_db = spots_data" by (simp add: init_db_def)
  have sel: "select_spot (ParkingSpots init_db) 1 =
               (Some 2, ''Allocated nearest Premium spot in Parking 1 (Least Dense).'')"
    unfolding tbl by (rule seed_select_premium)
  have c: "cascade (ParkingSpots init_db) True (get_least_dense_floor (ParkingSpots init_db)) = Some 2"
    using select_spot_cascade [of "ParkingSpots init_db" 1] by (simp add: sel)
  have "allocate_spot init_db (Some 101) =
     (Inr (2, ''Allocated nearest Premium spot in Parking 1 (Least Dense).''),
      init_db\<lparr>ParkingSpots := update_occupied 1 2 (ParkingSpots init_db)\<rparr>)"
    using allocate_follows_cascade [OF nz seed_users_101] by (simp add: c sel)
  with nz seed_users_101 c show ?thesis by blast
qed

text \<open>
  Claim C2. The target floor is Parking 1 unless the density of Parking 2 is strictly less
  than the density of Parking 1; in particular it is Parking 1 when the two densities are
  equal. The density is the one of the specification: occupied spots over spots, and 1
  for a floor without spots.
\<close>

theorem target_is_parking_1_unless_parking_2_less_dense:
  "get_least_dense_floor tbl =
     (if density tbl ''Parking 2'' < density tbl ''Parking 1'' then ''Parking 2''
      else ''Parking 1'') \<and>
   (density tbl ''Parking 2'' = density tbl ''Parking 1'' \<longrightarrow>
      get_least_dense_floor tbl = ''Parking 1'')"
  by (simp add: target_floor_density)

text \<open>
  At the seed data both densities are 1/2 and the target is Parking 1.
\<close>

theorem target_is_parking_1_unless_parking_2_less_dense_witness:
  "density spots_data ''Parking 2'' = density spots_data ''Parking 1'' \<and>
   get_least_dense_floor spots_data = ''Parking 1''"
proof -
  have tie: "density spots_data ''Parking 2'' = density spots_data ''Parking 1''"
    by (simp add: seed_spec_density_p1 seed_spec_density_p2)
  with target_is_parking_1_unless_parking_2_less_dense [of spots_data]
  show ?thesis by blast
qed

text \<open>
  Claim C3. The density that \<open>get_least_dense_floor\<close> reads for a floor,
  \<^verbatim>\<open>density_map.get(floor, 1.0)\<close>, is the number of the floor's occupied spots over the
  number of its spots; it lies between 0 and 1; for a floor without spots it is 1, which
  is never strictly less than the density of another floor, so that Parking 2 without
  spots is never the target. The quotient is taken in the reals, where Python rounds it
  to a float; the rounding is monotone and exact at 0 and 1.
\<close>

theorem density_is_ratio_in_unit_interval:
  "dict_get (density_map (floor_data tbl)) loc 1 =
     (if total_count tbl loc = 0 then 1
      else real (occupied_count tbl loc) / real (total_count tbl loc)) \<and>
   0 \<le> dict_get (density_map (floor_data tbl)) loc 1 \<and>
   dict_get (density_map (floor_data tbl)) loc 1 \<le> 1 \<and>
   (total_count tbl loc = 0 \<longrightarrow>
      dict_get (density_map (floor_data tbl)) loc 1 = 1 \<and>
      \<not> dict_get (density_map (floor_data tbl)) loc 1
          < dict_get (density_map (floor_data tbl)) other 1) \<and>
   (total_count tbl ''Parking 2'' = 0 \<longrightarrow> get_least_dense_floor tbl = ''Parking 1'')"
proof (intro conjI impI)
  show "dict_get (density_map (floor_data tbl)) loc 1 =
     (if total_count tbl loc = 0 then 1
      else real (occupied_count tbl loc) / real (total_count tbl loc))"
    by (simp only: density_lookup density_def)
  show "0 \<le> dict_get (density_map (floor_data tbl)) loc 1"
    using density_range [of tbl loc] by (simp only: density_lookup)
  show "dict_get (density_map (floor_data tbl)) loc 1 \<le> 1"
    using density_range [of tbl loc] by (simp only: density_lookup)
next
  assume "total_count tbl loc = 0"
  then show one: "dict_get (density_map (floor_data tbl)) loc 1 = 1"
    by (simp add: density_lookup density_def)
  show "\<not> dict_get (density_map (floor_data tbl)) loc 1
          < dict_get (density_map (floor_data tbl)) other 1"
    using density_range [of tbl other] one by (simp add: density_lookup)
next
  assume "total_count tbl ''Parking 2'' = 0"
  then have "density tbl ''Parking 2'' = 1" by (simp add: density_def)
  then show "get_least_dense_floor tbl = ''Parking 1''"
    using density_range [of tbl "''Parking 1''"] by (simp add: target_floor_density)
qed

text \<open>
  At a table with two spots on Parking 1, one of them occupied, and none on Parking 2.
\<close>

theorem density_is_ratio_in_unit_interval_witness:
  "total_count lot_a_only ''Parking 2'' = 0 \<and>
   dict_get (density_map (floor_data lot_a_only)) ''Parking 2'' 1 = 1 \<and>
   dict_get (density_map (floor_data lot_a_only)) ''Parking 1'' 1 = 1 / 2 \<and>
   \<not> dict_get (density_map (floor_data lot_a_only)) ''Parking 2'' 1
       < dict_get (density_map (floor_data lot_a_only)) ''Parking 1'' 1 \<and>
   get_least_dense_floor lot_a_only = ''Parking 1''"
proof -
  have empty: "total_count lot_a_only ''Parking 2'' = 0"
    by (simp add: total_count_def lot_a_only_def)
  have tot: "total_count lot_a_only ''Parking 1'' = 2"
    by (simp add: total_count_def lot_a_only_def)
  have occ: "occupied_count lot_a_only ''Parking 1'' = 1"
    by (simp add: occupied_count_def lot_a_only_def)
  have half: "dict_get (density_map (floor_data lot_a_only)) ''Parking 1'' 1 = 1 / 2"
    using density_is_ratio_in_unit_interval [of lot_a_only "''Parking 1''" "''Parking 1''"]
    by (simp add: tot occ)
  from density_is_ratio_in_unit_interval [of lot_a_only "''Parking 2''" "''Parking 1''"] empty half
  show ?thesis by simp
qed

text \<open>
  Claim C4. For a request with a non-zero user id that the table \<open>Users\<close> holds, on a table
  whose spot ids are unique (the primary key), the handler either answers with the id of a
  spot that was free and writes the table back with the flag of the row of that spot, and
  of no other row, set to 1, or it answers \<open>NoCapacity\<close> and leaves the database as it
  was.
\<close>

theorem allocate_marks_one_spot_or_fails:
  assumes ids: "distinct (map spot_id (ParkingSpots d))"
      and nz: "uid \<noteq> 0"
      and usr: "fetchone (filter (\<lambda>u. user_id u = uid) (Users d)) = Some usr"
  shows "(\<exists>i msg. i < length (ParkingSpots d) \<and> is_occupied (ParkingSpots d ! i) = 0 \<and>
            allocate_spot d (Some uid) =
              (Inr (spot_id (ParkingSpots d ! i), msg),
               d\<lparr>ParkingSpots := (ParkingSpots d)[i := (ParkingSpots d ! i)\<lparr>is_occupied := 1\<rparr>]\<rparr>))
         \<or> allocate_spot d (Some uid) = (Inl NoCapacity, d)"
proof (cases "cascade (ParkingSpots d) (is_premium usr = 1) (get_least_dense_floor (ParkingSpots d))")
  case None
  with allocate_spot_valid [OF nz usr] show ?thesis by simp
next
  case (Some sid)
  from cascade_free [OF Some] obtain r where
    r: "r \<in> set (ParkingSpots d)" "spot_id r = sid" "is_occupied r = 0" by auto
  from r(1) obtain i where i: "i < length (ParkingSpots d)" "ParkingSpots d ! i = r"
    by (auto simp: in_set_conv_nth)
  have upd: "update_occupied 1 sid (ParkingSpots d) =
             (ParkingSpots d)[i := (ParkingSpots d ! i)\<lparr>is_occupied := 1\<rparr>]"
    using update_occupied_one [OF ids i(1), of 1] i(2) r(2) by simp
  have "allocate_spot d (Some uid) =
          (Inr (spot_id (ParkingSpots d ! i), snd (select_spot (ParkingSpots d) (is_premium usr))),
           d\<lparr>ParkingSpots := (ParkingSpots d)[i := (ParkingSpots d ! i)\<lparr>is_occupied := 1\<rparr>]\<rparr>)"
    using allocate_spot_valid [OF nz usr] Some upd i(2) r(2) by simp
  with i r(3) show ?thesis by blast
qed

text \<open>
  At the seed data, for the standard user 102.
\<close>

theorem allocate_marks_one_spot_or_fails_witness:
  "distinct (map spot_id (ParkingSpots init_db)) \<and> (102::int) \<noteq> 0 \<and>
   fetchone (filter (\<lambda>u. user_id u = 102) (Users init_db)) =
     Some \<lparr>user_id = 102, role = ''Student'', is_premium = 0\<rparr> \<and>
   ((\<exists>i msg. i < length (ParkingSpots init_db) \<and> is_occupied (ParkingSpots init_db ! i) = 0 \<and>
        allocate_spot init_db (Some 102) =
          (Inr (spot_id (ParkingSpots init_db ! i), msg),
           init_db\<lparr>ParkingSpots :=
             (ParkingSpots init_db)[i := (ParkingSpots init_db ! i)\<lparr>is_occupied := 1\<rparr>]\<rparr>))
    \<or> allocate_spot init_db (Some 102) = (Inl NoCapacity, init_db))"
proof -
  have ids: "distinct (map spot_id (ParkingSpots init_db))"
    by (simp add: init_db_def seed_distinct)
  have nz: "(102::int) \<noteq> 0" by simp
  from allocate_marks_one_spot_or_fails [OF ids nz seed_users_102] ids nz seed_users_102
  show ?thesis by blast
qed

text \<open>
  Claim C5, amended. For a non-zero spot id, on a table whose spot ids are unique: when no
  spot has the id, the release fails with \<open>SpotNotFound\<close> if the id fits SQLite's
  \<^verbatim>\<open>INTEGER\<close> (from \<open>- 2 ^ 63\<close> to \<open>2 ^ 63 - 1\<close>), and with the status 500 of the caught
  \<^verbatim>\<open>OverflowError\<close> if it does not, the database being left as it was; it fails with
  \<open>AlreadyFree\<close> when the flag of the spot is 0, and otherwise succeeds and sets the flag to
  0; a second release of the same spot then fails with \<open>AlreadyFree\<close> and changes nothing.
  Spot ids are positive in the specification's data model; the id 0 never reaches the
  lookup (claim C10).
\<close>

theorem release_spot_outcomes:
  assumes nz: "sid \<noteq> 0" and ids: "distinct (map spot_id (ParkingSpots d))"
  shows "(sid \<notin> spot_id ` set (ParkingSpots d) \<longrightarrow>
            (sqlite_integer sid \<longrightarrow> release_spot d (Some sid) = (Inl SpotNotFound, d)) \<and>
            (\<not> sqlite_integer sid \<longrightarrow> release_spot d (Some sid) = (Inl InternalError, d))) \<and>
         (\<forall>r \<in> set (ParkingSpots d). spot_id r = sid \<longrightarrow>
            (is_occupied r = 0 \<longrightarrow> release_spot d (Some sid) = (Inl AlreadyFree, d)) \<and>
            (is_occupied r \<noteq> 0 \<longrightarrow>
               fst (release_spot d (Some sid)) = Inr sid \<and>
               r\<lparr>is_occupied := 0\<rparr> \<in> set (ParkingSpots (snd (release_spot d (Some sid)))) \<and>
               (\<forall>r' \<in> set (ParkingSpots (snd (release_spot d (Some sid)))).
                  spot_id r' = sid \<longrightarrow> is_occupied r' = 0) \<and>
               release_spot (snd (release_spot d (Some sid))) (Some sid) =
                 (Inl AlreadyFree, snd (release_spot d (Some sid)))))"
proof (intro conjI impI ballI)
  assume "sid \<notin> spot_id ` set (ParkingSpots d)" and "sqlite_integer sid"
  with release_spot_missing [of sid d] nz
  show "release_spot d (Some sid) = (Inl SpotNotFound, d)" by simp
next
  assume "sid \<notin> spot_id ` set (ParkingSpots d)" and "\<not> sqlite_integer sid"
  with release_spot_missing [of sid d] nz
  show "release_spot d (Some sid) = (Inl InternalError, d)" by simp
next
  fix r assume r: "r \<in> set (ParkingSpots d)" "spot_id r = sid" and free: "is_occupied r = 0"
  from release_spot_found [OF nz ids r] free
  show "release_spot d (Some sid) = (Inl AlreadyFree, d)" by simp
next
  fix r assume r: "r \<in> set (ParkingSpots d)" "spot_id r = sid" and occ: "is_occupied r \<noteq> 0"
  define d' where "d' = d\<lparr>ParkingSpots := update_occupied 0 sid (ParkingSpots d)\<rparr>"
  have rel: "release_spot d (Some sid) = (Inr sid, d')"
    using release_spot_found [OF nz ids r] occ by (simp add: d'_def)
  have tbl': "ParkingSpots d' = update_occupied 0 sid (ParkingSpots d)"
    by (simp add: d'_def)
  have ids': "distinct (map spot_id (ParkingSpots d'))"
    using ids by (simp add: tbl' update_occupied_ids)
  have mem: "r\<lparr>is_occupied := 0\<rparr> \<in> set (ParkingSpots d')"
    unfolding tbl' update_occupied_set using r by force
  have id': "spot_id (r\<lparr>is_occupied := 0\<rparr>) = sid" and free': "is_occupied (r\<lparr>is_occupied := 0\<rparr>) = 0"
    using r(2) by simp_all
  have again: "release_spot d' (Some sid) = (Inl AlreadyFree, d')"
    unfolding release_spot_found [OF nz ids' mem id'] using free' by (rule if_P)
  have flags: "\<forall>r' \<in> set (ParkingSpots d'). spot_id r' = sid \<longrightarrow> is_occupied r' = 0"
  proof (intro ballI impI)
    fix r' assume "r' \<in> set (ParkingSpots d')" and sid: "spot_id r' = sid"
    then obtain x where x: "x \<in> set (ParkingSpots d)"
        "r' = (if spot_id x = sid then x\<lparr>is_occupied := 0\<rparr> else x)"
      unfolding tbl' update_occupied_set by blast
    show "is_occupied r' = 0"
    proof (cases "spot_id x = sid")
      case True
      with x(2) show ?thesis by simp
    next
      case False
      with x(2) sid show ?thesis by simp
    qed
  qed
  show "fst (release_spot d (Some sid)) = Inr sid" by (simp add: rel)
  show "r\<lparr>is_occupied := 0\<rparr> \<in> set (ParkingSpots (snd (release_spot d (Some sid))))"
    using mem by (simp add: rel)
  show "release_spot (snd (release_spot d (Some sid))) (Some sid) =
          (Inl AlreadyFree, snd (release_spot d (Some sid)))"
    using again by (simp add: rel)
  fix r' assume "r' \<in> set (ParkingSpots (snd (release_spot d (Some sid))))" "spot_id r' = sid"
  with flags show "is_occupied r' = 0" by (simp add: rel)
qed

text \<open>
  At the seed data: spot 1, which the seed has occupied, is released and then found free;
  the id 21, which fits and which no spot has, is not found.
\<close>

theorem release_spot_outcomes_witness:
  "(1::int) \<noteq> 0 \<and> (21::int) \<noteq> 0 \<and> distinct (map spot_id (ParkingSpots init_db)) \<and>
   \<lparr>spot_id = 1, floor_name = ''Parking 1'', spot_type = ''Premium'', is_occupied = 1\<rparr>
     \<in> set (ParkingSpots init_db) \<and>
   fst (release_spot init_db (Some 1)) = Inr 1 \<and>
   release_spot (snd (release_spot init_db (Some 1))) (Some 1) =
     (Inl AlreadyFree, snd (release_spot init_db (Some 1))) \<and>
   21 \<notin> spot_id ` set (ParkingSpots init_db) \<and> sqlite_integer 21 \<and>
   release_spot init_db (Some 21) = (Inl SpotNotFound, init_db)"
proof -
  let ?r = "\<lparr>spot_id = 1, floor_name = ''Parking 1'', spot_type = ''Premium'', is_occupied = 1\<rparr>"
  have nz: "(1::int) \<noteq> 0" and nz': "(21::int) \<noteq> 0" by simp_all
  have ids: "distinct (map spot_id (ParkingSpots init_db))"
    by (simp add: init_db_def seed_distinct)
  have mem: "?r \<in> set (ParkingSpots init_db)"
    by (simp add: init_db_def spots_data_def)
  have id: "spot_id ?r = 1" and occ: "is_occupied ?r \<noteq> 0" by simp_all
  from release_spot_outcomes [OF nz ids] mem id occ
  have twice: "fst (release_spot init_db (Some 1)) = Inr 1 \<and>
        release_spot (snd (release_spot init_db (Some 1))) (Some 1) =
          (Inl AlreadyFree, snd (release_spot init_db (Some 1)))"
    by blast
  have "spot_id ` set (ParkingSpots init_db) = set (map spot_id spots_data)"
    by (simp add: init_db_def)
  then have unknown: "21 \<notin> spot_id ` set (ParkingSpots init_db)"
    by (simp add: seed_ids)
  have fits: "sqlite_integer 21" by (simp add: sqlite_integer_def)
  from release_spot_outcomes [OF nz' ids] unknown fits
  have "release_spot init_db (Some 21) = (Inl SpotNotFound, init_db)" by blast
  with nz nz' ids mem twice unknown fits show ?thesis by blast
qed

text \<open>
  Without the bound on the id the statement fails. The id \<open>2 ^ 63\<close> is one that no spot
  of the seed has, and the release of it is answered with the status 500, not with
  \<open>SpotNotFound\<close>: binding it to the \<^verbatim>\<open>SELECT\<close> raises \<^verbatim>\<open>OverflowError\<close> inside the
  \<^verbatim>\<open>try\<close>.
\<close>

theorem release_spot_beyond_64_bit_counterexample:
  "(9223372036854775808::int) \<noteq> 0 \<and>
   9223372036854775808 \<notin> spot_id ` set (ParkingSpots init_db) \<and>
   release_spot init_db (Some 9223372036854775808) = (Inl InternalError, init_db) \<and>
   release_spot init_db (Some 9223372036854775808) \<noteq> (Inl SpotNotFound, init_db) \<and>
   http_status InternalError = 500"
proof -
  have "spot_id ` set (ParkingSpots init_db) = set (map spot_id spots_data)"
    by (simp add: init_db_def)
  then have unknown: "9223372036854775808 \<notin> spot_id ` set (ParkingSpots init_db)"
    by (simp add: seed_ids)
  have big: "\<not> sqlite_integer 9223372036854775808"
    by (simp add: sqlite_integer_def)
  have rel: "release_spot init_db (Some 9223372036854775808) = (Inl InternalError, init_db)"
    using release_spot_missing [OF unknown] big by simp
  with unknown show ?thesis by simp
qed

text \<open>
  Claim C6. When the target floor holds a free Premium spot, the allocation for a premium
  user succeeds with the lowest free Premium id of the target floor; the spot with that id
  is a Premium spot, not a Standard spot of the target floor.
\<close>

theorem premium_user_gets_premium_on_target:
  assumes ids: "distinct (map spot_id (ParkingSpots d))"
      and nz: "uid \<noteq> 0"
      and usr: "fetchone (filter (\<lambda>u. user_id u = uid) (Users d)) = Some usr"
      and prem: "is_premium usr = 1"
      and free: "\<exists>r \<in> set (ParkingSpots d).
                   floor_name r = get_least_dense_floor (ParkingSpots d) \<and>
                   spot_type r = ''Premium'' \<and> is_occupied r = 0"
  shows "\<exists>sid msg d'.
           allocate_spot d (Some uid) = (Inr (sid, msg), d') \<and>
           findFreeSpot (ParkingSpots d) (get_least_dense_floor (ParkingSpots d)) ''Premium'' = Some sid \<and>
           (\<forall>r \<in> set (ParkingSpots d). spot_id r = sid \<longrightarrow>
              spot_type r = ''Premium'' \<and> is_occupied r = 0 \<and>
              floor_name r = get_least_dense_floor (ParkingSpots d) \<and>
              \<not> (spot_type r = ''Standard'' \<and>
                   floor_name r = get_least_dense_floor (ParkingSpots d)))"
proof -
  let ?tbl = "ParkingSpots d"
  let ?target = "get_least_dense_floor ?tbl"
  from free obtain r0 where "r0 \<in> set ?tbl" "floor_name r0 = ?target"
      "spot_type r0 = ''Premium''" "is_occupied r0 = 0" by blast
  from findFreeSpot_exists [OF this] obtain sid where
    found: "findFreeSpot ?tbl ?target ''Premium'' = Some sid" by blast
  then have c: "cascade ?tbl (is_premium usr = 1) ?target = Some sid"
    by (simp add: cascade_def prem)
  have alloc: "allocate_spot d (Some uid) =
                 (Inr (sid, snd (select_spot ?tbl (is_premium usr))),
                  d\<lparr>ParkingSpots := update_occupied 1 sid ?tbl\<rparr>)"
    using allocate_spot_valid [OF nz usr] by (simp add: c)
  from findFreeSpot_free [OF found] obtain r1 where r1: "r1 \<in> set ?tbl" "spot_id r1 = sid"
      "floor_name r1 = ?target" "spot_type r1 = ''Premium''" "is_occupied r1 = 0" by blast
  have rows: "\<forall>r \<in> set ?tbl. spot_id r = sid \<longrightarrow>
              spot_type r = ''Premium'' \<and> is_occupied r = 0 \<and> floor_name r = ?target \<and>
              \<not> (spot_type r = ''Standard'' \<and> floor_name r = ?target)"
  proof (intro ballI impI)
    fix r assume "r \<in> set ?tbl" "spot_id r = sid"
    with r1 ids have "r = r1" by (auto intro: unique_row)
    with r1 show "spot_type r = ''Premium'' \<and> is_occupied r = 0 \<and> floor_name r = ?target \<and>
              \<not> (spot_type r = ''Standard'' \<and> floor_name r = ?target)" by simp
  qed
  from alloc found rows show ?thesis by blast
qed

text \<open>
  At the seed data, for the premium user 101, with the free Premium spot 2 on Parking 1.
\<close>

theorem premium_user_gets_premium_on_target_witness:
  "distinct (map spot_id (ParkingSpots init_db)) \<and> (101::int) \<noteq> 0 \<and>
   fetchone (filter (\<lambda>u. user_id u = 101) (Users init_db)) =
     Some \<lparr>user_id = 101, role = ''Teacher'', is_premium = 1\<rparr> \<and>
   (\<exists>r \<in> set (ParkingSpots init_db).
      floor_name r = get_least_dense_floor (ParkingSpots init_db) \<and>
      spot_type r = ''Premium'' \<and> is_occupied r = 0) \<and>
   (\<exists>sid msg d'.
      allocate_spot init_db (Some 101) = (Inr (sid, msg), d') \<and>
      findFreeSpot (ParkingSpots init_db) (get_least_dense_floor (ParkingSpots init_db)) ''Premium''
        = Some sid \<and>
      (\<forall>r \<in> set (ParkingSpots init_db). spot_id r = sid \<longrightarrow>
         spot_type r = ''Premium'' \<and> is_occupied r = 0 \<and>
         floor_name r = get_least_dense_floor (ParkingSpots init_db) \<and>
         \<not> (spot_type r = ''Standard'' \<and>
              floor_name r = get_least_dense_floor (ParkingSpots init_db))))"
proof -
  let ?r = "\<lparr>spot_id = 2, floor_name = ''Parking 1'', spot_type = ''Premium'', is_occupied = 0\<rparr>"
  have tbl: "ParkingSpots init_db = spots_data" by (simp add: init_db_def)
  have ids: "distinct (map spot_id (ParkingSpots init_db))"
    by (simp add: tbl seed_distinct)
  have nz: "(101::int) \<noteq> 0" by simp
  have prem: "is_premium \<lparr>user_id = 101, role = ''Teacher'', is_premium = 1\<rparr> = 1" by simp
  have mem: "?r \<in> set (ParkingSpots init_db)" by (simp add: tbl spots_data_def)
  have "floor_name ?r = get_least_dense_floor (ParkingSpots init_db) \<and>
        spot_type ?r = ''Premium'' \<and> is_occupied ?r = 0"
    by (simp add: tbl seed_target)
  with mem have free: "\<exists>r \<in> set (ParkingSpots init_db).
      floor_name r = get_least_dense_floor (ParkingSpots init_db) \<and>
      spot_type r = ''Premium'' \<and> is_occupied r = 0" by blast
  from premium_user_gets_premium_on_target [OF ids nz seed_users_101 prem free]
    ids nz seed_users_101 free
  show ?thesis by blast
qed

text \<open>
  Claim C7. Every state the program reaches from \<open>init_db\<close> is an occupancy state, and in
  every occupancy state \<open>get_spots\<close> returns the whole table, all rows with all columns, in
  ascending order of the spot id. The query has no \<^verbatim>\<open>ORDER BY\<close>: the order is the one of
  the rows in the table, which \<open>init_db\<close> inserts by ascending id and the handlers update in
  place.
\<close>

theorem get_spots_full_ascending:
  "(reachable d \<longrightarrow> occupancy_state d) \<and>
   (occupancy_state d \<longrightarrow>
      get_spots d = ParkingSpots d \<and>
      map spot_id (get_spots d) =
        [1, 2, 3, 4, 5, 6, 7, 8, 9, 10, 11, 12, 13, 14, 15, 16, 17, 18, 19, 20] \<and>
      sorted_wrt (<) (map spot_id (get_spots d)))"
proof (intro conjI impI)
  assume "reachable d"
  then show "occupancy_state d" by (rule reachable_occupancy_state)
next
  show "get_spots d = ParkingSpots d" by (simp add: get_spots_def)
next
  assume "occupancy_state d"
  then show ids: "map spot_id (get_spots d) =
        [1, 2, 3, 4, 5, 6, 7, 8, 9, 10, 11, 12, 13, 14, 15, 16, 17, 18, 19, 20]"
    unfolding get_spots_def by (rule occupancy_state_ids)
  show "sorted_wrt (<) (map spot_id (get_spots d))"
    unfolding ids by simp
qed

text \<open>
  At the state after an allocation for user 102 and a release of spot 1.
\<close>

theorem get_spots_full_ascending_witness:
  "reachable (snd (release_spot (snd (allocate_spot init_db (Some 102))) (Some 1))) \<and>
   occupancy_state (snd (release_spot (snd (allocate_spot init_db (Some 102))) (Some 1))) \<and>
   map spot_id (get_spots (snd (release_spot (snd (allocate_spot init_db (Some 102))) (Some 1)))) =
     [1, 2, 3, 4, 5, 6, 7, 8, 9, 10, 11, 12, 13, 14, 15, 16, 17, 18, 19, 20] \<and>
   sorted_wrt (<)
     (map spot_id (get_spots (snd (release_spot (snd (allocate_spot init_db (Some 102))) (Some 1)))))"
proof -
  have r: "reachable (snd (release_spot (snd (allocate_spot init_db (Some 102))) (Some 1)))"
    by (intro reachable.release reachable.allocate reachable.start)
  from get_spots_full_ascending
         [of "snd (release_spot (snd (allocate_spot init_db (Some 102))) (Some 1))"] r
  show ?thesis by blast
qed

text \<open>
  Claim C8. The table written by \<open>init_db\<close> is the seed data of the specification (ids 1 to
  10 on Parking 1, ids 11 to 20 on Parking 2, with the stated types and flags). On it, the
  allocation for the standard user 102 finds the density 1/2 for both floors, takes
  Parking 1 as the target floor by the tie-break, and the Standard step allocates spot 5,
  the lowest free Standard id of Parking 1.
\<close>

theorem seed_standard_user_gets_spot_5:
  "map (\<lambda>r. (spot_id r, floor_name r, spot_type r, is_occupied r)) spots_data =
     [(1, ''Parking 1'', ''Premium'', 1), (2, ''Parking 1'', ''Premium'', 0),
      (3, ''Parking 1'', ''Premium'', 1), (4, ''Parking 1'', ''Premium'', 0),
      (5, ''Parking 1'', ''Standard'', 0), (6, ''Parking 1'', ''Standard'', 1),
      (7, ''Parking 1'', ''Standard'', 0), (8, ''Parking 1'', ''Standard'', 1),
      (9, ''Parking 1'', ''Standard'', 0), (10, ''Parking 1'', ''Standard'', 1),
      (11, ''Parking 2'', ''Premium'', 1), (12, ''Parking 2'', ''Premium'', 0),
      (13, ''Parking 2'', ''Standard'', 0), (14, ''Parking 2'', ''Standard'', 1),
      (15, ''Parking 2'', ''Standard'', 0), (16, ''Parking 2'', ''Standard'', 1),
      (17, ''Parking 2'', ''Standard'', 0), (18, ''Parking 2'', ''Standard'', 1),
      (19, ''Parking 2'', ''Standard'', 0), (20, ''Parking 2'', ''Standard'', 1)] \<and>
   dict_get (density_map (floor_data (ParkingSpots init_db))) ''Parking 1'' 1 = 1 / 2 \<and>
   dict_get (density_map (floor_data (ParkingSpots init_db))) ''Parking 2'' 1 = 1 / 2 \<and>
   get_least_dense_floor (ParkingSpots init_db) = ''Parking 1'' \<and>
   query_floor (ParkingSpots init_db) ''Standard'' ''Parking 1'' = Some 5 \<and>
   allocate_spot init_db (Some 102) =
     (Inr (5, ''Allocated nearest Standard spot in Parking 1.''),
      init_db\<lparr>ParkingSpots := update_occupied 1 5 (ParkingSpots init_db)\<rparr>)"
proof (intro conjI)
  show "map (\<lambda>r. (spot_id r, floor_name r, spot_type r, is_occupied r)) spots_data =
     [(1, ''Parking 1'', ''Premium'', 1), (2, ''Parking 1'', ''Premium'', 0),
      (3, ''Parking 1'', ''Premium'', 1), (4, ''Parking 1'', ''Premium'', 0),
      (5, ''Parking 1'', ''Standard'', 0), (6, ''Parking 1'', ''Standard'', 1),
      (7, ''Parking 1'', ''Standard'', 0), (8, ''Parking 1'', ''Standard'', 1),
      (9, ''Parking 1'', ''Standard'', 0), (10, ''Parking 1'', ''Standard'', 1),
      (11, ''Parking 2'', ''Premium'', 1), (12, ''Parking 2'', ''Premium'', 0),
      (13, ''Parking 2'', ''Standard'', 0), (14, ''Parking 2'', ''Standard'', 1),
      (15, ''Parking 2'', ''Standard'', 0), (16, ''Parking 2'', ''Standard'', 1),
      (17, ''Parking 2'', ''Standard'', 0), (18, ''Parking 2'', ''Standard'', 1),
      (19, ''Parking 2'', ''Standard'', 0), (20, ''Parking 2'', ''Standard'', 1)]"
    by (simp add: spots_data_def)
  have tbl: "ParkingSpots init_db = spots_data" by (simp add: init_db_def)
  show "dict_get (density_map (floor_data (ParkingSpots init_db))) ''Parking 1'' 1 = 1 / 2"
    unfolding tbl by (rule seed_density_p1)
  show "dict_get (density_map (floor_data (ParkingSpots init_db))) ''Parking 2'' 1 = 1 / 2"
    unfolding tbl by (rule seed_density_p2)
  show "get_least_dense_floor (ParkingSpots init_db) = ''Parking 1''"
    unfolding tbl by (rule seed_target)
  show "query_floor (ParkingSpots init_db) ''Standard'' ''Parking 1'' = Some 5"
    unfolding tbl by (rule seed_query_standard)
  show "allocate_spot init_db (Some 102) =
     (Inr (5, ''Allocated nearest Standard spot in Parking 1.''),
      init_db\<lparr>ParkingSpots := update_occupied 1 5 (ParkingSpots init_db)\<rparr>)"
    by (simp add: allocate_spot_def seed_users_102 tbl seed_select_standard)
qed

text \<open>
  Claim C9. A successful release answers for the spot id of the request and writes back a
  table of the same length in which every row of another spot is as it was and the row of
  the released spot differs in the flag only, now 0; the table \<open>Users\<close> is as it was. With
  unique spot ids that is one row, whose flag was not 0.
\<close>

theorem release_changes_one_flag:
  assumes rel: "release_spot d req = (Inr sid, d')"
  shows "req = Some sid \<and> Users d' = Users d \<and>
         length (ParkingSpots d') = length (ParkingSpots d) \<and>
         (\<forall>i < length (ParkingSpots d).
            ParkingSpots d' ! i =
              (if spot_id (ParkingSpots d ! i) = sid
               then (ParkingSpots d ! i)\<lparr>is_occupied := 0\<rparr>
               else ParkingSpots d ! i)) \<and>
         (distinct (map spot_id (ParkingSpots d)) \<longrightarrow>
            (\<exists>i < length (ParkingSpots d).
               spot_id (ParkingSpots d ! i) = sid \<and> is_occupied (ParkingSpots d ! i) \<noteq> 0 \<and>
               ParkingSpots d' =
                 (ParkingSpots d)[i := (ParkingSpots d ! i)\<lparr>is_occupied := 0\<rparr>]))"
proof -
  from release_spot_success [OF rel] obtain sp where
    req: "req = Some sid" and
    sp: "fetchone (filter (\<lambda>r. spot_id r = sid) (ParkingSpots d)) = Some sp" "is_occupied sp \<noteq> 0" and
    d': "d' = d\<lparr>ParkingSpots := update_occupied 0 sid (ParkingSpots d)\<rparr>"
    by blast
  have tbl': "ParkingSpots d' = update_occupied 0 sid (ParkingSpots d)" by (simp add: d')
  have users: "Users d' = Users d" by (simp add: d')
  have len: "length (ParkingSpots d') = length (ParkingSpots d)"
    by (simp add: tbl' update_occupied_def)
  have pointwise: "\<forall>i < length (ParkingSpots d).
            ParkingSpots d' ! i =
              (if spot_id (ParkingSpots d ! i) = sid
               then (ParkingSpots d ! i)\<lparr>is_occupied := 0\<rparr>
               else ParkingSpots d ! i)"
    by (simp add: tbl' update_occupied_def)
  have one: "distinct (map spot_id (ParkingSpots d)) \<longrightarrow>
            (\<exists>i < length (ParkingSpots d).
               spot_id (ParkingSpots d ! i) = sid \<and> is_occupied (ParkingSpots d ! i) \<noteq> 0 \<and>
               ParkingSpots d' =
                 (ParkingSpots d)[i := (ParkingSpots d ! i)\<lparr>is_occupied := 0\<rparr>])"
  proof
    assume ids: "distinct (map spot_id (ParkingSpots d))"
    from fetchone_filter_Some [OF sp(1)] have mem: "sp \<in> set (ParkingSpots d)" and id: "spot_id sp = sid"
      by simp_all
    from mem obtain i where i: "i < length (ParkingSpots d)" "ParkingSpots d ! i = sp"
      by (auto simp: in_set_conv_nth)
    have "ParkingSpots d' = (ParkingSpots d)[i := (ParkingSpots d ! i)\<lparr>is_occupied := 0\<rparr>]"
      using update_occupied_one [OF ids i(1), of 0] i(2) id by (simp add: tbl')
    with i id sp(2) show "\<exists>i < length (ParkingSpots d).
               spot_id (ParkingSpots d ! i) = sid \<and> is_occupied (ParkingSpots d ! i) \<noteq> 0 \<and>
               ParkingSpots d' =
                 (ParkingSpots d)[i := (ParkingSpots d ! i)\<lparr>is_occupied := 0\<rparr>]"
      by blast
  qed
  from req users len pointwise one show ?thesis by blast
qed

text \<open>
  At the seed data, for spot 1.
\<close>

theorem release_changes_one_flag_witness:
  "release_spot init_db (Some 1) =
     (Inr 1, init_db\<lparr>ParkingSpots := update_occupied 0 1 (ParkingSpots init_db)\<rparr>) \<and>
   distinct (map spot_id (ParkingSpots init_db)) \<and>
   Users (init_db\<lparr>ParkingSpots := update_occupied 0 1 (ParkingSpots init_db)\<rparr>) = Users init_db \<and>
   (\<exists>i < length (ParkingSpots init_db).
      spot_id (ParkingSpots init_db ! i) = 1 \<and> is_occupied (ParkingSpots init_db ! i) \<noteq> 0 \<and>
      ParkingSpots (init_db\<lparr>ParkingSpots := update_occupied 0 1 (ParkingSpots init_db)\<rparr>) =
        (ParkingSpots init_db)[i := (ParkingSpots init_db ! i)\<lparr>is_occupied := 0\<rparr>])"
proof -
  have ids: "distinct (map spot_id (ParkingSpots init_db))"
    by (simp add: init_db_def seed_distinct)
  from release_changes_one_flag [OF seed_release_1] ids seed_release_1
  show ?thesis by blast
qed

text \<open>
  Claim C10. A request whose \<^verbatim>\<open>user_id\<close> (for \<open>allocate_spot\<close>) or \<^verbatim>\<open>spot_id\<close> (for
  \<open>release_spot\<close>) is the integer 0 gets the response of a request without the field, the
  400 "is required" error, whatever the tables hold, and the database is left as it was.
\<close>

theorem zero_id_is_missing_input:
  "allocate_spot d (Some 0) = (Inl InvalidInput, d) \<and>
   allocate_spot d (Some 0) = allocate_spot d None \<and>
   release_spot d (Some 0) = (Inl InvalidInput, d) \<and>
   release_spot d (Some 0) = release_spot d None \<and>
   http_status InvalidInput = 400"
  by (simp add: allocate_spot_def release_spot_def)

text \<open>
  The same at a database that does hold a user 0 and an occupied spot 0: the answer is
  still the missing-input error, not a lookup.
\<close>

theorem zero_id_is_missing_input_witness:
  "allocate_spot \<lparr>ParkingSpots = [\<lparr>spot_id = 0, floor_name = ''Parking 1'',
                                    spot_type = ''Standard'', is_occupied = 1\<rparr>],
                  Users = [\<lparr>user_id = 0, role = ''Student'', is_premium = 0\<rparr>]\<rparr> (Some 0) =
     (Inl InvalidInput,
      \<lparr>ParkingSpots = [\<lparr>spot_id = 0, floor_name = ''Parking 1'',
                        spot_type = ''Standard'', is_occupied = 1\<rparr>],
       Users = [\<lparr>user_id = 0, role = ''Student'', is_premium = 0\<rparr>]\<rparr>) \<and>
   release_spot \<lparr>ParkingSpots = [\<lparr>spot_id = 0, floor_name = ''Parking 1'',
                                   spot_type = ''Standard'', is_occupied = 1\<rparr>],
                 Users = [\<lparr>user_id = 0, role = ''Student'', is_premium = 0\<rparr>]\<rparr> (Some 0) =
     (Inl InvalidInput,
      \<lparr>ParkingSpots = [\<lparr>spot_id = 0, floor_name = ''Parking 1'',
                        spot_type = ''Standard'', is_occupied = 1\<rparr>],
       Users = [\<lparr>user_id = 0, role = ''Student'', is_premium = 0\<rparr>]\<rparr>)"
  using zero_id_is_missing_input
    [of "\<lparr>ParkingSpots = [\<lparr>spot_id = 0, floor_name = ''Parking 1'',
                              spot_type = ''Standard'', is_occupied = 1\<rparr>],
           Users = [\<lparr>user_id = 0, role = ''Student'', is_premium = 0\<rparr>]\<rparr>"]
  by blast

end
